theory Spec2Isabelle
  imports Main
begin

section \<open>prettyZap: data model\<close>

text \<open>
  A shallow embedding of \<^verbatim>\<open>prettyZap.go\<close>. Go's \<^verbatim>\<open>int\<close> fields are only copied and
  compared for equality, never used in arithmetic, so they are modelled as \<^typ>\<open>int\<close>.
  A pointer argument that may be \<^verbatim>\<open>nil\<close> is an \<open>option\<close>; dereferencing \<^verbatim>\<open>nil\<close> is the
  panic \<open>NilDereference\<close>.
\<close>

datatype panic = NilDereference | PanicMessage string | OsExit int

text \<open>The constants of the first \<^verbatim>\<open>const\<close> block.\<close>

definition DefaultPort :: string where "DefaultPort = ''9090''"
definition DefaultLevel :: string where "DefaultLevel = ''info''"
definition DefaultURL :: string where "DefaultURL = ''/change/level''"
definition DefaultMaxLogSizeMb :: int where "DefaultMaxLogSizeMb = 256"
definition DefaultMaxBackup :: int where "DefaultMaxBackup = 10"
definition DefaultMaxAgeDay :: int where "DefaultMaxAgeDay = 7"
definition DefaultSvcName :: string where "DefaultSvcName = ''app''"
definition IsCompress_const :: bool where "IsCompress_const = False"

text \<open>The \<^verbatim>\<open>iota\<close> block of output selectors.\<close>

definition LogOutputStdout :: int where "LogOutputStdout = 0"
definition LogOutputFile :: int where "LogOutputFile = 1"
definition LogOutputStdoutAndFile :: int where "LogOutputStdoutAndFile = 2"

record PreSetConfig =
  LogFilePath :: string
  HttpPort :: string
  LogLevel :: string
  RestURL :: string
  MaxLogSizeMb :: int
  MaxBackup :: int
  MaxAgeDay :: int
  SvcName :: string
  IsCompress :: bool
  LogOutputTo :: int

text \<open>
  \<^verbatim>\<open>zapcore.Level\<close> with the seven levels that \<^verbatim>\<open>levelMap\<close> names; \<open>Level_int\<close> is the
  numeric value of each constant, which is what the level comparison uses.
\<close>

datatype Level =
  DebugLevel | InfoLevel | WarnLevel | ErrorLevel | DPanicLevel | PanicLevel | FatalLevel

fun Level_int :: "Level \<Rightarrow> int" where
  "Level_int DebugLevel = -1"
| "Level_int InfoLevel = 0"
| "Level_int WarnLevel = 1"
| "Level_int ErrorLevel = 2"
| "Level_int DPanicLevel = 3"
| "Level_int PanicLevel = 4"
| "Level_int FatalLevel = 5"

definition levelMap :: "string \<rightharpoonup> Level" where
  "levelMap = map_of
     [(''debug'', DebugLevel),
      (''info'', InfoLevel),
      (''warn'', WarnLevel),
      (''error'', ErrorLevel),
      (''dpanic'', DPanicLevel),
      (''panic'', PanicLevel),
      (''fatal'', FatalLevel)]"

definition getLoggerLevel :: "string \<Rightarrow> Level" where
  "getLoggerLevel lvl = (case levelMap lvl of Some level \<Rightarrow> level | None \<Rightarrow> InfoLevel)"

subsection \<open>Configuration merge\<close>

text \<open>
  \<^verbatim>\<open>transferCfg(preConfig, runCfg *PreSetConfig)\<close> mutates the struct behind \<^verbatim>\<open>runCfg\<close>;
  the model returns the content of that struct after the call (\<open>None\<close> when \<^verbatim>\<open>runCfg\<close>
  is \<^verbatim>\<open>nil\<close>). The ten guarded assignments are kept in the source's order.
\<close>

definition transferCfg :: "PreSetConfig option \<Rightarrow> PreSetConfig option \<Rightarrow> PreSetConfig option" where
  "transferCfg preConfig runCfg =
     (case (preConfig, runCfg) of
        (Some p, Some r0) \<Rightarrow>
          (let r1 = (if IsCompress r0 \<noteq> IsCompress p then r0\<lparr>IsCompress := IsCompress p\<rparr> else r0);
               r2 = (if MaxAgeDay r1 \<noteq> MaxAgeDay p then r1\<lparr>MaxAgeDay := MaxAgeDay p\<rparr> else r1);
               r3 = (if SvcName r2 \<noteq> SvcName p then r2\<lparr>SvcName := SvcName p\<rparr> else r2);
               r4 = (if MaxBackup r3 \<noteq> MaxBackup p then r3\<lparr>MaxBackup := MaxBackup p\<rparr> else r3);
               r5 = (if LogLevel r4 \<noteq> LogLevel p then r4\<lparr>LogLevel := LogLevel p\<rparr> else r4);
               r6 = (if RestURL r5 \<noteq> RestURL p then r5\<lparr>RestURL := RestURL p\<rparr> else r5);
               r7 = (if HttpPort r6 \<noteq> HttpPort p then r6\<lparr>HttpPort := HttpPort p\<rparr> else r6);
               r8 = (if MaxLogSizeMb r7 \<noteq> MaxLogSizeMb p
                     then r7\<lparr>MaxLogSizeMb := MaxLogSizeMb p\<rparr> else r7);
               r9 = (if LogFilePath r8 \<noteq> LogFilePath p
                     then r8\<lparr>LogFilePath := LogFilePath p\<rparr> else r8);
               r10 = (if LogOutputTo r9 \<noteq> LogOutputTo p
                      then r9\<lparr>LogOutputTo := LogOutputTo p\<rparr> else r9)
           in Some r10)
      | _ \<Rightarrow> runCfg)"

text \<open>The zero value of the struct: what a caller gets from \<^verbatim>\<open>PreSetConfig{}\<close>.\<close>

definition zeroCfg :: PreSetConfig where
  "zeroCfg = \<lparr>LogFilePath = [], HttpPort = [], LogLevel = [], RestURL = [],
              MaxLogSizeMb = 0, MaxBackup = 0, MaxAgeDay = 0, SvcName = [],
              IsCompress = False, LogOutputTo = 0\<rparr>"

subsection \<open>Sink router\<close>

text \<open>The \<^verbatim>\<open>lumberjack.Logger\<close> struct literal built by \<^verbatim>\<open>outputTo\<close>.\<close>

record lumberjack_Logger =
  Filename :: string
  MaxSize :: int
  MaxBackups :: int
  MaxAge :: int
  Compress :: bool

text \<open>A write destination: \<^verbatim>\<open>zapcore.AddSync(os.Stdout)\<close> or \<^verbatim>\<open>zapcore.AddSync(&hook)\<close>.\<close>

datatype WriteSyncer = Stdout | RotatingFile lumberjack_Logger

definition outputTo :: "PreSetConfig option \<Rightarrow> panic + WriteSyncer list" where
  "outputTo cfg =
     (case cfg of
        None \<Rightarrow> Inl NilDereference
      | Some c \<Rightarrow>
          (let multiWriteSyncer = [];
               hook = \<lparr>Filename = LogFilePath c,
                       MaxSize = MaxLogSizeMb c,
                       MaxBackups = MaxBackup c,
                       MaxAge = MaxAgeDay c,
                       Compress = IsCompress c\<rparr>
           in if LogOutputTo c = LogOutputStdout then Inr (multiWriteSyncer @ [Stdout])
              else if LogOutputTo c = LogOutputFile then Inr (multiWriteSyncer @ [RotatingFile hook])
              else Inr (multiWriteSyncer @ [Stdout, RotatingFile hook])))"

subsection \<open>Encoder configuration\<close>

text \<open>
  \<^verbatim>\<open>zapcore.EncoderConfig\<close> holds six key names, the line ending and five encoder
  functions. The encoder functions are values of the library; each is modelled as the tag
  of the function chosen, with the alternatives the library offers beside it.
\<close>

datatype LevelEncoder = LowercaseLevelEncoder | CapitalLevelEncoder
datatype TimeEncoder = EpochTimeEncoder | ISO8601TimeEncoder | RFC3339TimeEncoder
datatype DurationEncoder = SecondsDurationEncoder | NanosDurationEncoder | StringDurationEncoder
datatype CallerEncoder = ShortCallerEncoder | FullCallerEncoder
datatype NameEncoder = FullNameEncoder

record EncoderConfig =
  TimeKey :: string
  LevelKey :: string
  NameKey :: string
  CallerKey :: string
  MessageKey :: string
  StacktraceKey :: string
  LineEnding :: string
  EncodeLevel :: LevelEncoder
  EncodeTime :: TimeEncoder
  EncodeDuration :: DurationEncoder
  EncodeCaller :: CallerEncoder
  EncodeName :: NameEncoder

definition DefaultLineEnding :: string where
  "DefaultLineEnding = [CHR 0x0A]"

definition encoderConfig :: EncoderConfig where
  "encoderConfig =
     \<lparr>TimeKey = ''time'',
      LevelKey = ''level'',
      NameKey = ''zapLogger'',
      CallerKey = ''caller'',
      MessageKey = ''msg'',
      StacktraceKey = ''stacktrace'',
      LineEnding = DefaultLineEnding,
      EncodeLevel = LowercaseLevelEncoder,
      EncodeTime = ISO8601TimeEncoder,
      EncodeDuration = SecondsDurationEncoder,
      EncodeCaller = ShortCallerEncoder,
      EncodeName = FullNameEncoder\<rparr>"

section \<open>The logging library as the program uses it\<close>

text \<open>
  The program calls into \<^verbatim>\<open>go.uber.org/zap\<close>, whose code is not part of the repository.
  The definitions of this section give the library operations the program calls the
  behaviour the specification relies on; each says so in its comment. The byte-level
  serialisation is left to the library: an encoded record is the list of its key/value
  pairs and its line terminator, and a time or caller value carries the tag of the encoder
  function that renders it.
\<close>

type_synonym Time = nat

record EntryCaller =
  Defined :: bool
  File :: string
  Line :: nat

record Entry =
  ent_Level :: Level
  ent_Time :: Time
  ent_LoggerName :: string
  ent_Message :: string
  ent_Caller :: EntryCaller
  ent_Stack :: string

datatype jvalue =
  JString string
| JTime TimeEncoder Time
| JCaller CallerEncoder EntryCaller

type_synonym Field = "string \<times> jvalue"

record encoded =
  pairs :: "Field list"
  terminator :: string

text \<open>
  Modelled from the spec: \<^verbatim>\<open>Level.String\<close> and \<^verbatim>\<open>Level.CapitalString\<close>, the texts
  that the two level encoders append (section 6: the level is a lowercase severity name).
\<close>

fun Level_String :: "Level \<Rightarrow> string" where
  "Level_String DebugLevel = ''debug''"
| "Level_String InfoLevel = ''info''"
| "Level_String WarnLevel = ''warn''"
| "Level_String ErrorLevel = ''error''"
| "Level_String DPanicLevel = ''dpanic''"
| "Level_String PanicLevel = ''panic''"
| "Level_String FatalLevel = ''fatal''"

fun Level_CapitalString :: "Level \<Rightarrow> string" where
  "Level_CapitalString DebugLevel = ''DEBUG''"
| "Level_CapitalString InfoLevel = ''INFO''"
| "Level_CapitalString WarnLevel = ''WARN''"
| "Level_CapitalString ErrorLevel = ''ERROR''"
| "Level_CapitalString DPanicLevel = ''DPANIC''"
| "Level_CapitalString PanicLevel = ''PANIC''"
| "Level_CapitalString FatalLevel = ''FATAL''"

fun apply_LevelEncoder :: "LevelEncoder \<Rightarrow> Level \<Rightarrow> jvalue" where
  "apply_LevelEncoder LowercaseLevelEncoder l = JString (Level_String l)"
| "apply_LevelEncoder CapitalLevelEncoder l = JString (Level_CapitalString l)"

text \<open>
  Modelled from the spec: the JSON encoder's \<^verbatim>\<open>EncodeEntry\<close> (sections 4.3 and 6: one
  encoded record per line, fixed field names, then the permanent fields). A part appears
  under its configured key; the logger name, the caller and the stack trace appear only
  when the entry carries them, and a part whose key is empty is left out.
\<close>

definition EncodeEntry :: "EncoderConfig \<Rightarrow> Field list \<Rightarrow> Entry \<Rightarrow> Field list \<Rightarrow> encoded" where
  "EncodeEntry c ctx ent fs =
     \<lparr>pairs =
        (if LevelKey c \<noteq> [] then [(LevelKey c, apply_LevelEncoder (EncodeLevel c) (ent_Level ent))]
         else [])
        @ (if TimeKey c \<noteq> [] then [(TimeKey c, JTime (EncodeTime c) (ent_Time ent))] else [])
        @ (if ent_LoggerName ent \<noteq> [] \<and> NameKey c \<noteq> []
           then [(NameKey c, JString (ent_LoggerName ent))] else [])
        @ (if Defined (ent_Caller ent) \<and> CallerKey c \<noteq> []
           then [(CallerKey c, JCaller (EncodeCaller c) (ent_Caller ent))] else [])
        @ (if MessageKey c \<noteq> [] then [(MessageKey c, JString (ent_Message ent))] else [])
        @ ctx
        @ fs
        @ (if ent_Stack ent \<noteq> [] \<and> StacktraceKey c \<noteq> []
           then [(StacktraceKey c, JString (ent_Stack ent))] else []),
      terminator = LineEnding c\<rparr>"

text \<open>
  Modelled from the spec: \<^verbatim>\<open>Enabled\<close> of the two level enablers of the program
  (section 8: a record is emitted iff its level is at least the threshold). A
  \<^verbatim>\<open>zapcore.Level\<close> value is a fixed threshold; the \<^verbatim>\<open>zap.AtomicLevel\<close> held in the
  package variable \<^verbatim>\<open>atomicLevel\<close> reads the shared cell, whose current content is the
  second argument of \<open>Enabled\<close>.
\<close>

datatype LevelEnabler = FixedLevel Level | AtomicLevelCell

fun Enabled :: "LevelEnabler \<Rightarrow> Level \<Rightarrow> Level \<Rightarrow> bool" where
  "Enabled (FixedLevel l) cell lvl = (Level_int l \<le> Level_int lvl)"
| "Enabled AtomicLevelCell cell lvl = (Level_int cell \<le> Level_int lvl)"

text \<open>
  Modelled from the spec: the core that \<^verbatim>\<open>zapcore.NewCore(enc, ws, enab)\<close> builds
  (section 4.3: it binds the encoding, the sink set and the threshold), with the permanent
  fields that \<^verbatim>\<open>With\<close> adds to it.
\<close>

record Core =
  core_enc :: EncoderConfig
  core_context :: "Field list"
  core_out :: "WriteSyncer list"
  core_enab :: LevelEnabler

definition NewCore :: "EncoderConfig \<Rightarrow> WriteSyncer list \<Rightarrow> LevelEnabler \<Rightarrow> Core" where
  "NewCore enc ws enab = \<lparr>core_enc = enc, core_context = [], core_out = ws, core_enab = enab\<rparr>"

text \<open>
  The output of the program: what each destination has received so far, one element per
  \<^verbatim>\<open>Write\<close> call.
\<close>

type_synonym world = "WriteSyncer \<Rightarrow> encoded list"

text \<open>
  Modelled from the spec: the multi write syncer (section 4.3: the record is written to
  every destination of the sink set, in order) and the core's \<^verbatim>\<open>Write\<close>.
\<close>

fun MultiWrite :: "WriteSyncer list \<Rightarrow> encoded \<Rightarrow> world \<Rightarrow> world" where
  "MultiWrite [] b w = w"
| "MultiWrite (s # ss) b w = MultiWrite ss b (w(s := w s @ [b]))"

definition Core_Write :: "Core \<Rightarrow> Entry \<Rightarrow> Field list \<Rightarrow> world \<Rightarrow> world" where
  "Core_Write c ent fs w =
     MultiWrite (core_out c) (EncodeEntry (core_enc c) (core_context c) ent fs) w"

text \<open>
  Modelled from the spec: \<^verbatim>\<open>zap.New\<close> and the four options the program passes to it.
  A new logger has no name; \<^verbatim>\<open>Fields\<close> adds permanent fields to the core (section 4.3:
  a permanent \<^verbatim>\<open>serviceName\<close> field).
\<close>

record Logger =
  log_core :: Core
  log_development :: bool
  log_addCaller :: bool
  log_callerSkip :: int
  log_name :: string

datatype zap_Option = AddCaller | AddCallerSkip int | Development | Fields "Field list"

fun apply_Option :: "Logger \<Rightarrow> zap_Option \<Rightarrow> Logger" where
  "apply_Option lg AddCaller = lg\<lparr>log_addCaller := True\<rparr>"
| "apply_Option lg (AddCallerSkip n) = lg\<lparr>log_callerSkip := log_callerSkip lg + n\<rparr>"
| "apply_Option lg Development = lg\<lparr>log_development := True\<rparr>"
| "apply_Option lg (Fields fs) =
     lg\<lparr>log_core := (log_core lg)\<lparr>core_context := core_context (log_core lg) @ fs\<rparr>\<rparr>"

definition zap_New :: "Core \<Rightarrow> zap_Option list \<Rightarrow> Logger" where
  "zap_New c opts =
     foldl apply_Option
       \<lparr>log_core = c, log_development = False, log_addCaller = False,
        log_callerSkip = 0, log_name = []\<rparr> opts"

section \<open>Package state and construction\<close>

text \<open>
  The package variables: \<^verbatim>\<open>DefaultCfg\<close>, \<^verbatim>\<open>atomicLevel\<close> (the content of its cell) and
  \<^verbatim>\<open>zapLogger\<close> (\<open>None\<close> while it is \<^verbatim>\<open>nil\<close>), with the effects of \<^verbatim>\<open>InitPrettyZap\<close> on the
  HTTP package: the patterns at which \<^verbatim>\<open>atomicLevel.ServeHTTP\<close> is registered and the
  addresses handed to \<^verbatim>\<open>ListenAndServe\<close>.
\<close>

record globals =
  DefaultCfg :: PreSetConfig
  atomicLevel :: Level
  zapLogger :: "Logger option"
  httpHandlers :: "string list"
  httpListening :: "string list"

text \<open>
  \<^verbatim>\<open>getAppname\<close> keeps what follows the last slash of \<^verbatim>\<open>os.Args[0]\<close>; \<open>Split\<close> is
  \<^verbatim>\<open>strings.Split\<close> for a one-character separator, which always returns at least one piece.
\<close>

fun Split :: "string \<Rightarrow> char \<Rightarrow> string list" where
  "Split [] sep = [[]]"
| "Split (c # cs) sep =
     (if c = sep then [] # Split cs sep
      else (case Split cs sep of [] \<Rightarrow> [[c]] | x # xs \<Rightarrow> (c # x) # xs))"

definition getAppname :: "string \<Rightarrow> string" where
  "getAppname full =
     (let splits = Split full CHR ''/''
      in if length splits \<ge> 1 then splits ! (length splits - 1) else DefaultSvcName)"

text \<open>
  \<^verbatim>\<open>getCurrentDirectory\<close> asks the operating system for the absolute directory of the
  executable; its result is the parameter \<open>dir\<close>.
\<close>

definition getFilePath :: "string \<Rightarrow> string \<Rightarrow> string" where
  "getFilePath dir full = dir @ ''/'' @ getAppname full @ ''.log''"

text \<open>
  The package state after variable initialisation: \<^verbatim>\<open>zap.NewAtomicLevel()\<close> starts at
  \<^verbatim>\<open>InfoLevel\<close>.
\<close>

definition initial_globals :: "string \<Rightarrow> string \<Rightarrow> globals" where
  "initial_globals dir full =
     \<lparr>DefaultCfg =
        \<lparr>LogFilePath = getFilePath dir full,
         HttpPort = DefaultPort,
         LogLevel = DefaultLevel,
         RestURL = DefaultURL,
         MaxLogSizeMb = DefaultMaxLogSizeMb,
         MaxBackup = DefaultMaxBackup,
         MaxAgeDay = DefaultMaxAgeDay,
         SvcName = getAppname full,
         IsCompress = IsCompress_const,
         LogOutputTo = LogOutputStdoutAndFile\<rparr>,
      atomicLevel = InfoLevel,
      zapLogger = None,
      httpHandlers = [],
      httpListening = []\<rparr>"

text \<open>
  \<^verbatim>\<open>newCore\<close> takes the sinks from its argument and the level from the package variable
  \<^verbatim>\<open>DefaultCfg\<close>; the level it hands to \<^verbatim>\<open>zapcore.NewCore\<close> is the \<^verbatim>\<open>zapcore.Level\<close>
  returned by \<^verbatim>\<open>getLoggerLevel\<close>.
\<close>

definition newCore :: "globals \<Rightarrow> PreSetConfig option \<Rightarrow> panic + Core" where
  "newCore g cfg =
     (case outputTo cfg of
        Inl e \<Rightarrow> Inl e
      | Inr multiWriteSyncer \<Rightarrow>
          Inr (NewCore encoderConfig multiWriteSyncer
                 (FixedLevel (getLoggerLevel (LogLevel (DefaultCfg g))))))"

definition NewLogger :: "globals \<Rightarrow> PreSetConfig option \<Rightarrow> panic + Logger" where
  "NewLogger g cfg =
     (case newCore g cfg of
        Inl e \<Rightarrow> Inl e
      | Inr c \<Rightarrow>
          (case cfg of
             None \<Rightarrow> Inl NilDereference
           | Some cf \<Rightarrow>
               Inr (zap_New c
                      [AddCaller, AddCallerSkip 1, Development,
                       Fields [(''serviceName'', JString (SvcName cf))]])))"

text \<open>
  \<^verbatim>\<open>InitPrettyZap\<close> merges into \<^verbatim>\<open>DefaultCfg\<close>, registers the handler, starts the
  listener in a goroutine, and stores the sugared logger. The two calls into the HTTP
  package are recorded in the state and taken to succeed: a pattern that the HTTP package
  rejects, and a failed bind in the background goroutine, are outside the model.
  \<^verbatim>\<open>Sugar\<close> wraps the logger and \<^verbatim>\<open>Sync\<close> flushes it; neither changes the state.
\<close>

definition InitPrettyZap :: "PreSetConfig option \<Rightarrow> globals \<Rightarrow> panic + globals" where
  "InitPrettyZap preCfg g =
     (let g1 = (case transferCfg preCfg (Some (DefaultCfg g)) of
                  Some r \<Rightarrow> g\<lparr>DefaultCfg := r\<rparr>
                | None \<Rightarrow> g);
          g2 = g1\<lparr>httpHandlers := httpHandlers g1 @ [RestURL (DefaultCfg g1)]\<rparr>;
          g3 = g2\<lparr>httpListening := httpListening g2 @ ['':'' @ HttpPort (DefaultCfg g2)]\<rparr>
      in case NewLogger g3 (Some (DefaultCfg g3)) of
           Inl e \<Rightarrow> Inl e
         | Inr log \<Rightarrow> Inr (g3\<lparr>zapLogger := Some log\<rparr>))"

section \<open>Emission\<close>

text \<open>
  Arguments of type \<^verbatim>\<open>interface{}\<close>, and the two functions of package \<^verbatim>\<open>fmt\<close> that the
  program and the sugared logger call; the formatting itself is the library's, so both
  functions are parameters.
\<close>

datatype go_value = GoString string | GoInt int | GoBool bool | GoError string | GoNil

record fmt =
  Sprint :: "go_value list \<Rightarrow> string"
  Sprintf :: "string \<Rightarrow> go_value list \<Rightarrow> string"

fun Repeat :: "string \<Rightarrow> nat \<Rightarrow> string" where
  "Repeat s 0 = []"
| "Repeat s (Suc n) = s @ Repeat s n"

text \<open>What the runtime supplies to one log call: the clock and the caller's frame.\<close>

record callsite =
  cs_Now :: Time
  cs_Frame :: EntryCaller

text \<open>
  Modelled from the spec: the logger's check and write (section 4.3: an emission reads
  the threshold; below it nothing is written, otherwise the record is encoded and written
  to every destination; section 7: the panic severity propagates a panic after emission).
  No stack trace is taken, since the program passes no stack-trace option.
\<close>

definition Logger_write :: "Logger \<Rightarrow> Level \<Rightarrow> callsite \<Rightarrow> Level \<Rightarrow> string \<Rightarrow> world
    \<Rightarrow> world \<times> panic option" where
  "Logger_write lg cell cs lvl msg w =
     (let ent = \<lparr>ent_Level = lvl, ent_Time = cs_Now cs, ent_LoggerName = log_name lg,
                 ent_Message = msg,
                 ent_Caller = (if log_addCaller lg then cs_Frame cs
                               else \<lparr>Defined = False, File = [], Line = 0\<rparr>),
                 ent_Stack = []\<rparr>;
          w' = (if Enabled (core_enab (log_core lg)) cell lvl
                then Core_Write (log_core lg) ent [] w else w)
      in (w', if lvl = PanicLevel \<or> (lvl = DPanicLevel \<and> log_development lg)
              then Some (PanicMessage msg)
              else if lvl = FatalLevel then Some (OsExit 1)
              else None))"

text \<open>
  Modelled from the spec: the sugared logger's formatting methods. The message is the
  template itself when there are no arguments, and the arguments formatted against the
  template otherwise.
\<close>

definition getMessage :: "fmt \<Rightarrow> string \<Rightarrow> go_value list \<Rightarrow> string" where
  "getMessage F template fmtArgs =
     (if fmtArgs = [] then template
      else if template \<noteq> [] then Sprintf F template fmtArgs
      else Sprint F fmtArgs)"

definition logf :: "fmt \<Rightarrow> globals \<Rightarrow> callsite \<Rightarrow> Level \<Rightarrow> string \<Rightarrow> go_value list \<Rightarrow> world
    \<Rightarrow> world \<times> panic option" where
  "logf F g cs lvl template fmtArgs w =
     (case zapLogger g of
        None \<Rightarrow> (w, Some NilDereference)
      | Some lg \<Rightarrow>
          if Level_int lvl < Level_int DPanicLevel
               \<and> \<not> Enabled (core_enab (log_core lg)) (atomicLevel g) lvl
          then (w, None)
          else Logger_write lg (atomicLevel g) cs lvl (getMessage F template fmtArgs) w)"

type_synonym emission =
  "fmt \<Rightarrow> globals \<Rightarrow> callsite \<Rightarrow> string \<Rightarrow> go_value list \<Rightarrow> world \<Rightarrow> world \<times> panic option"

definition Debugf :: emission where
  "Debugf F g cs = logf F g cs DebugLevel"

definition Infof :: emission where
  "Infof F g cs = logf F g cs InfoLevel"

definition Warnf :: emission where
  "Warnf F g cs = logf F g cs WarnLevel"

definition Errorf :: emission where
  "Errorf F g cs = logf F g cs ErrorLevel"

definition Panicf :: emission where
  "Panicf F g cs = logf F g cs PanicLevel"

subsection \<open>Facade functions\<close>

definition Debug :: "fmt \<Rightarrow> globals \<Rightarrow> callsite \<Rightarrow> go_value \<Rightarrow> go_value list \<Rightarrow> world
    \<Rightarrow> world \<times> panic option" where
  "Debug F g cs format args w =
     (case format of
        GoString templet \<Rightarrow> Debugf F g cs templet args w
      | _ \<Rightarrow> Debugf F g cs (Sprint F [format] @ Repeat '' %v'' (length args)) args w)"

definition Info :: "fmt \<Rightarrow> globals \<Rightarrow> callsite \<Rightarrow> go_value \<Rightarrow> go_value list \<Rightarrow> world
    \<Rightarrow> world \<times> panic option" where
  "Info F g cs format args w =
     (case format of
        GoString templet \<Rightarrow> Infof F g cs templet args w
      | _ \<Rightarrow> Infof F g cs (Sprint F [format] @ Repeat '' %v'' (length args)) args w)"

definition Warn :: "fmt \<Rightarrow> globals \<Rightarrow> callsite \<Rightarrow> go_value \<Rightarrow> go_value list \<Rightarrow> world
    \<Rightarrow> world \<times> panic option" where
  "Warn F g cs format args w =
     (case format of
        GoString templet \<Rightarrow> Warnf F g cs templet args w
      | _ \<Rightarrow> Warnf F g cs (Sprint F [format] @ Repeat '' %v'' (length args)) args w)"

definition Error :: "fmt \<Rightarrow> globals \<Rightarrow> callsite \<Rightarrow> go_value \<Rightarrow> go_value list \<Rightarrow> world
    \<Rightarrow> world \<times> panic option" where
  "Error F g cs format args w =
     (case format of
        GoString templet \<Rightarrow> Errorf F g cs templet args w
      | _ \<Rightarrow> Errorf F g cs (Sprint F [format] @ Repeat '' %v'' (length args)) args w)"

definition Panic :: "fmt \<Rightarrow> globals \<Rightarrow> callsite \<Rightarrow> go_value \<Rightarrow> go_value list \<Rightarrow> world
    \<Rightarrow> world \<times> panic option" where
  "Panic F g cs format args w =
     (case format of
        GoString templet \<Rightarrow> Panicf F g cs templet args w
      | _ \<Rightarrow> Panicf F g cs (Sprint F [format] @ Repeat '' %v'' (length args)) args w)"

section \<open>Control endpoint\<close>

text \<open>
  Modelled from the spec: \<^verbatim>\<open>atomicLevel.ServeHTTP\<close>, the handler that \<^verbatim>\<open>InitPrettyZap\<close>
  registers; it is a method of the logging library and absent from the repository.
  Sections 4.4 and 6: a query answers with the current level as text; a mutation validates
  the supplied name against the fixed level set, on success replaces the threshold and
  answers 2xx, on an unrecognized name answers with a client error and leaves the
  threshold unchanged. The fixed level set is the parameter \<open>names\<close>, the table from level
  names to levels that the handler validates against; the repository's own table of this
  kind is \<open>levelMap\<close>.
\<close>

datatype request = Query | Mutation string

record response =
  Status :: nat
  Body :: string

definition ServeHTTP :: "(string \<rightharpoonup> Level) \<Rightarrow> request \<Rightarrow> Level \<Rightarrow> Level \<times> response" where
  "ServeHTTP names req cell =
     (case req of
        Query \<Rightarrow> (cell, \<lparr>Status = 200, Body = Level_String cell\<rparr>)
      | Mutation nm \<Rightarrow>
          (case names nm of
             Some l \<Rightarrow> (l, \<lparr>Status = 200, Body = Level_String l\<rparr>)
           | None \<Rightarrow> (cell, \<lparr>Status = 400, Body = ''unrecognized level: '' @ nm\<rparr>)))"

text \<open>A request served at the control endpoint acts on the package variable \<^verbatim>\<open>atomicLevel\<close>.\<close>

definition control_endpoint :: "(string \<rightharpoonup> Level) \<Rightarrow> request \<Rightarrow> globals \<Rightarrow> globals \<times> response" where
  "control_endpoint names req g =
     (case ServeHTTP names req (atomicLevel g) of (l, resp) \<Rightarrow> (g\<lparr>atomicLevel := l\<rparr>, resp))"

section \<open>Properties\<close>

subsection \<open>Auxiliary facts\<close>

lemma guarded_IsCompress:
  "(if IsCompress r \<noteq> IsCompress p then r\<lparr>IsCompress := IsCompress p\<rparr> else r) = r\<lparr>IsCompress := IsCompress p\<rparr>"
  and guarded_MaxAgeDay:
  "(if MaxAgeDay r \<noteq> MaxAgeDay p then r\<lparr>MaxAgeDay := MaxAgeDay p\<rparr> else r) = r\<lparr>MaxAgeDay := MaxAgeDay p\<rparr>"
  and guarded_SvcName:
  "(if SvcName r \<noteq> SvcName p then r\<lparr>SvcName := SvcName p\<rparr> else r) = r\<lparr>SvcName := SvcName p\<rparr>"
  and guarded_MaxBackup:
  "(if MaxBackup r \<noteq> MaxBackup p then r\<lparr>MaxBackup := MaxBackup p\<rparr> else r) = r\<lparr>MaxBackup := MaxBackup p\<rparr>"
  and guarded_LogLevel:
  "(if LogLevel r \<noteq> LogLevel p then r\<lparr>LogLevel := LogLevel p\<rparr> else r) = r\<lparr>LogLevel := LogLevel p\<rparr>"
  and guarded_RestURL:
  "(if RestURL r \<noteq> RestURL p then r\<lparr>RestURL := RestURL p\<rparr> else r) = r\<lparr>RestURL := RestURL p\<rparr>"
  and guarded_HttpPort:
  "(if HttpPort r \<noteq> HttpPort p then r\<lparr>HttpPort := HttpPort p\<rparr> else r) = r\<lparr>HttpPort := HttpPort p\<rparr>"
  and guarded_MaxLogSizeMb:
  "(if MaxLogSizeMb r \<noteq> MaxLogSizeMb p then r\<lparr>MaxLogSizeMb := MaxLogSizeMb p\<rparr> else r) = r\<lparr>MaxLogSizeMb := MaxLogSizeMb p\<rparr>"
  and guarded_LogFilePath:
  "(if LogFilePath r \<noteq> LogFilePath p then r\<lparr>LogFilePath := LogFilePath p\<rparr> else r) = r\<lparr>LogFilePath := LogFilePath p\<rparr>"
  and guarded_LogOutputTo:
  "(if LogOutputTo r \<noteq> LogOutputTo p then r\<lparr>LogOutputTo := LogOutputTo p\<rparr> else r) = r\<lparr>LogOutputTo := LogOutputTo p\<rparr>"
  by simp_all

lemmas guarded_assign = guarded_IsCompress guarded_MaxAgeDay guarded_SvcName guarded_MaxBackup
  guarded_LogLevel guarded_RestURL guarded_HttpPort guarded_MaxLogSizeMb guarded_LogFilePath
  guarded_LogOutputTo

lemma transferCfg_assigns:
  "transferCfg (Some p) (Some r) =
     Some (r\<lparr>IsCompress := IsCompress p, MaxAgeDay := MaxAgeDay p, SvcName := SvcName p,
              MaxBackup := MaxBackup p, LogLevel := LogLevel p, RestURL := RestURL p,
              HttpPort := HttpPort p, MaxLogSizeMb := MaxLogSizeMb p,
              LogFilePath := LogFilePath p, LogOutputTo := LogOutputTo p\<rparr>)"
  unfolding transferCfg_def Let_def prod.case option.case guarded_assign ..

lemma transferCfg_both: "transferCfg (Some p) (Some r) = Some p"
  unfolding transferCfg_assigns by (cases p, cases r) simp

lemma transferCfg_nil_pre: "transferCfg None runCfg = runCfg"
  by (simp add: transferCfg_def)

lemma transferCfg_nil_run: "transferCfg preConfig None = None"
  by (simp add: transferCfg_def split: option.split)

lemma levelMap_dom:
  "dom levelMap = {''debug'', ''info'', ''warn'', ''error'', ''dpanic'', ''panic'', ''fatal''}"
  unfolding levelMap_def by (simp add: dom_map_of_conv_image_fst)

lemma levelMap_Level_String: "levelMap (Level_String l) = Some l"
  by (cases l) (simp_all add: levelMap_def)

lemma outputTo_Some_cases:
  "outputTo (Some c) = Inr ws \<Longrightarrow> ws \<noteq> [] \<and> distinct ws"
  by (auto simp add: outputTo_def Let_def split: if_splits)

lemma outputTo_Some_ex: "\<exists>ws. outputTo (Some c) = Inr ws"
  by (simp add: outputTo_def Let_def)

lemma NewLogger_Some:
  "outputTo (Some c) = Inr ws \<Longrightarrow>
   NewLogger g (Some c) =
     Inr \<lparr>log_core =
            \<lparr>core_enc = encoderConfig,
             core_context = [(''serviceName'', JString (SvcName c))],
             core_out = ws,
             core_enab = FixedLevel (getLoggerLevel (LogLevel (DefaultCfg g)))\<rparr>,
          log_development = True, log_addCaller = True, log_callerSkip = 1, log_name = []\<rparr>"
  by (simp add: NewLogger_def newCore_def NewCore_def zap_New_def)

lemma InitPrettyZap_result:
  assumes "transferCfg preCfg (Some (DefaultCfg g)) = Some r" and "outputTo (Some r) = Inr ws"
  shows "InitPrettyZap preCfg g =
     Inr (g\<lparr>DefaultCfg := r,
            httpHandlers := httpHandlers g @ [RestURL r],
            httpListening := httpListening g @ ['':'' @ HttpPort r],
            zapLogger := Some
              \<lparr>log_core =
                 \<lparr>core_enc = encoderConfig,
                  core_context = [(''serviceName'', JString (SvcName r))],
                  core_out = ws,
                  core_enab = FixedLevel (getLoggerLevel (LogLevel r))\<rparr>,
               log_development = True, log_addCaller = True, log_callerSkip = 1,
               log_name = []\<rparr>\<rparr>)"
  using assms by (simp add: InitPrettyZap_def Let_def NewLogger_Some)

lemma Repeat_concat: "Repeat s n = concat (replicate n s)"
  by (induction n) simp_all

lemma MultiWrite_distinct:
  "distinct ss \<Longrightarrow> MultiWrite ss b w = (\<lambda>s. if s \<in> set ss then w s @ [b] else w s)"
proof (induction ss arbitrary: w)
  case Nil
  then show ?case by simp
next
  case (Cons a ss)
  then show ?case by (auto simp add: fun_eq_iff)
qed

lemma Level_String_lowercase: "set (Level_String l) \<subseteq> set ''abcdefghijklmnopqrstuvwxyz''"
  by (cases l) simp_all

lemma logf_fixed_level:
  assumes "zapLogger g = Some lg" and "core_enab (log_core lg) = FixedLevel L"
  shows "logf F (g\<lparr>atomicLevel := l\<rparr>) cs R t a w = logf F g cs R t a w"
  using assms by (simp add: logf_def Logger_write_def)

lemma InitPrettyZap_Some_ex:
  "\<exists>ws. outputTo (Some cfg) = Inr ws \<and> ws \<noteq> [] \<and> distinct ws \<and>
     InitPrettyZap (Some cfg) g0 =
       Inr (g0\<lparr>DefaultCfg := cfg,
            httpHandlers := httpHandlers g0 @ [RestURL cfg],
            httpListening := httpListening g0 @ ['':'' @ HttpPort cfg],
            zapLogger := Some
              \<lparr>log_core =
                 \<lparr>core_enc = encoderConfig,
                  core_context = [(''serviceName'', JString (SvcName cfg))],
                  core_out = ws,
                  core_enab = FixedLevel (getLoggerLevel (LogLevel cfg))\<rparr>,
               log_development = True, log_addCaller = True, log_callerSkip = 1,
               log_name = []\<rparr>\<rparr>)"
proof -
  obtain ws where ws: "outputTo (Some cfg) = Inr ws"
    using outputTo_Some_ex by blast
  show ?thesis
    using ws outputTo_Some_cases [OF ws]
      InitPrettyZap_result [OF transferCfg_both ws, of g0] by simp
qed

lemma logf_after_init:
  assumes "zapLogger g = Some lg"
    and "log_core lg = \<lparr>core_enc = ec, core_context = ctx, core_out = ws,
                         core_enab = FixedLevel L\<rparr>"
    and "log_name lg = []" and "log_addCaller lg"
    and "distinct ws"
  shows "fst (logf F g cs R t a w) =
     (if Level_int L \<le> Level_int R
      then (\<lambda>s. if s \<in> set ws
                then w s @ [EncodeEntry ec ctx
                     \<lparr>ent_Level = R, ent_Time = cs_Now cs, ent_LoggerName = [],
                      ent_Message = getMessage F t a, ent_Caller = cs_Frame cs,
                      ent_Stack = []\<rparr> []]
                else w s)
      else w)"
  using assms
  by (simp add: logf_def Logger_write_def Core_Write_def MultiWrite_distinct Let_def)

lemma logf_InitPrettyZap:
  "\<exists>g ws. InitPrettyZap (Some cfg) g0 = Inr g \<and> outputTo (Some cfg) = Inr ws \<and> ws \<noteq> []
     \<and> (\<forall>F cs R t a w. fst (logf F g cs R t a w) =
          (if Level_int (getLoggerLevel (LogLevel cfg)) \<le> Level_int R
           then (\<lambda>s. if s \<in> set ws
                then w s @ [EncodeEntry encoderConfig [(''serviceName'', JString (SvcName cfg))]
                     \<lparr>ent_Level = R, ent_Time = cs_Now cs, ent_LoggerName = [],
                      ent_Message = getMessage F t a, ent_Caller = cs_Frame cs,
                      ent_Stack = []\<rparr> []]
                else w s)
           else w))"
proof -
  let ?L = "getLoggerLevel (LogLevel cfg)"
  obtain ws where ws: "outputTo (Some cfg) = Inr ws" "ws \<noteq> []" "distinct ws"
    and init: "InitPrettyZap (Some cfg) g0 =
       Inr (g0\<lparr>DefaultCfg := cfg,
            httpHandlers := httpHandlers g0 @ [RestURL cfg],
            httpListening := httpListening g0 @ ['':'' @ HttpPort cfg],
            zapLogger := Some
              \<lparr>log_core =
                 \<lparr>core_enc = encoderConfig,
                  core_context = [(''serviceName'', JString (SvcName cfg))],
                  core_out = ws,
                  core_enab = FixedLevel (getLoggerLevel (LogLevel cfg))\<rparr>,
               log_development = True, log_addCaller = True, log_callerSkip = 1,
               log_name = []\<rparr>\<rparr>)" (is "_ = Inr ?g")
    using InitPrettyZap_Some_ex [of cfg g0] by blast
  have out: "fst (logf F ?g cs R t a w) =
     (if Level_int ?L \<le> Level_int R
      then (\<lambda>s. if s \<in> set ws
                then w s @ [EncodeEntry encoderConfig [(''serviceName'', JString (SvcName cfg))]
                     \<lparr>ent_Level = R, ent_Time = cs_Now cs, ent_LoggerName = [],
                      ent_Message = getMessage F t a, ent_Caller = cs_Frame cs,
                      ent_Stack = []\<rparr> []]
                else w s)
      else w)" for F cs R t a w
    by (rule logf_after_init
        [where lg = "\<lparr>log_core =
                 \<lparr>core_enc = encoderConfig,
                  core_context = [(''serviceName'', JString (SvcName cfg))],
                  core_out = ws,
                  core_enab = FixedLevel (getLoggerLevel (LogLevel cfg))\<rparr>,
               log_development = True, log_addCaller = True, log_callerSkip = 1,
               log_name = []\<rparr>"])
      (simp_all add: ws(3))
  show ?thesis
    using init ws(1,2) out by blast
qed

lemma InitPrettyZap_fixed_level:
  "\<exists>g lg L. InitPrettyZap preCfg g0 = Inr g \<and> zapLogger g = Some lg
      \<and> core_enab (log_core lg) = FixedLevel L"
proof -
  obtain r where r: "transferCfg preCfg (Some (DefaultCfg g0)) = Some r"
    by (cases preCfg) (simp_all add: transferCfg_nil_pre transferCfg_both)
  obtain ws where ws: "outputTo (Some r) = Inr ws"
    using outputTo_Some_ex by blast
  show ?thesis
    by (simp add: InitPrettyZap_result [OF r ws])
qed

text \<open>
  What a request does to the two enablers: the fixed level keeps its threshold, the cell
  enabler takes the level that the request stored.
\<close>

lemma Enabled_after_mutation:
  assumes "names nm = Some l"
  shows "Enabled (FixedLevel L) (atomicLevel (fst (control_endpoint names (Mutation nm) g))) R
           = (Level_int L \<le> Level_int R)"
    and "Enabled AtomicLevelCell (atomicLevel (fst (control_endpoint names (Mutation nm) g))) R
           = (Level_int l \<le> Level_int R)"
  using assms by (simp_all add: control_endpoint_def ServeHTTP_def)

lemma logf_control_endpoint:
  assumes "zapLogger g = Some lg" and "core_enab (log_core lg) = FixedLevel L"
  shows "logf F (fst (control_endpoint names req g)) cs R t a w = logf F g cs R t a w"
  using logf_fixed_level [OF assms]
  by (simp add: control_endpoint_def split: prod.split)

subsection \<open>Configuration merge\<close>

text \<open>
  Claim C2, as amended. With both pointers non-nil, \<open>transferCfg\<close> makes the effective
  configuration equal to the caller's configuration in every field, zero-valued fields
  included: each guard compares the default with the caller's value, not the caller's
  value with zero. So a fully specified configuration is taken over exactly, and the
  all-zero configuration yields the all-zero configuration.
\<close>

theorem transferCfg_overwrites:
  "transferCfg (Some preConfig) (Some runCfg) = Some preConfig
   \<and> transferCfg (Some zeroCfg) (Some runCfg) = Some zeroCfg"
  by (simp add: transferCfg_both)

text \<open>
  The claim as stated (a zero-valued field of the caller's configuration keeps the
  default; merging the empty configuration yields the default) fails on the defaults of
  an executable \<^verbatim>\<open>/opt/svc/app\<close>: the caller's \<^verbatim>\<open>MaxLogSizeMb\<close> is zero, the default is
  256, and the merge of the empty configuration is not the default.
\<close>

theorem transferCfg_zero_counterexample:
  "MaxLogSizeMb zeroCfg = 0
   \<and> MaxLogSizeMb (DefaultCfg (initial_globals ''/opt/svc'' ''/opt/svc/app'')) = 256
   \<and> transferCfg (Some zeroCfg) (Some (DefaultCfg (initial_globals ''/opt/svc'' ''/opt/svc/app'')))
       = Some zeroCfg
   \<and> transferCfg (Some zeroCfg) (Some (DefaultCfg (initial_globals ''/opt/svc'' ''/opt/svc/app'')))
       \<noteq> Some (DefaultCfg (initial_globals ''/opt/svc'' ''/opt/svc/app''))"
  by (simp add: transferCfg_both zeroCfg_def initial_globals_def DefaultMaxLogSizeMb_def)

text \<open>
  Claim C10. \<open>transferCfg\<close> is total on nil pointers: with a nil caller configuration
  the default configuration is returned unchanged in every field, and with a nil default
  pointer there is nothing to update. So \<open>InitPrettyZap\<close> called with nil does not
  dereference nil: it returns, leaves \<open>DefaultCfg\<close> as it was and stores the logger
  that \<open>NewLogger\<close> builds from these defaults.
\<close>

theorem transferCfg_nil_total:
  "transferCfg None (Some runCfg) = Some runCfg
   \<and> transferCfg preConfig None = None
   \<and> (\<exists>g' lg. InitPrettyZap None g = Inr g'
         \<and> DefaultCfg g' = DefaultCfg g
         \<and> zapLogger g' = Some lg
         \<and> NewLogger g (Some (DefaultCfg g)) = Inr lg)"
proof -
  obtain ws where ws: "outputTo (Some (DefaultCfg g)) = Inr ws"
    using outputTo_Some_ex by blast
  have t: "transferCfg None (Some (DefaultCfg g)) = Some (DefaultCfg g)"
    by (rule transferCfg_nil_pre)
  show ?thesis
    by (simp add: transferCfg_nil_pre transferCfg_nil_run InitPrettyZap_result [OF t ws]
        NewLogger_Some [OF ws])
qed

theorem transferCfg_nil_total_witness:
  "transferCfg None (Some (DefaultCfg (initial_globals ''/opt/svc'' ''/opt/svc/app'')))
     = Some (DefaultCfg (initial_globals ''/opt/svc'' ''/opt/svc/app''))
   \<and> transferCfg (Some zeroCfg) None = None
   \<and> DefaultCfg (projr (InitPrettyZap None (initial_globals ''/opt/svc'' ''/opt/svc/app'')))
       = DefaultCfg (initial_globals ''/opt/svc'' ''/opt/svc/app'')
   \<and> zapLogger (projr (InitPrettyZap None (initial_globals ''/opt/svc'' ''/opt/svc/app''))) \<noteq> None"
  using transferCfg_nil_total [of "DefaultCfg (initial_globals ''/opt/svc'' ''/opt/svc/app'')"
      "Some zeroCfg" "initial_globals ''/opt/svc'' ''/opt/svc/app''"]
  by auto

subsection \<open>Level names\<close>

text \<open>
  Claim C5. \<open>getLoggerLevel\<close> is a total function into the levels: it returns the level
  that \<open>levelMap\<close> gives to each of the seven recognized names, and \<open>InfoLevel\<close> for
  every other string, the empty string among them.
\<close>

theorem getLoggerLevel_total:
  "(lvl \<in> {''debug'', ''info'', ''warn'', ''error'', ''dpanic'', ''panic'', ''fatal''}
      \<longrightarrow> levelMap lvl = Some (getLoggerLevel lvl))
   \<and> (lvl \<notin> {''debug'', ''info'', ''warn'', ''error'', ''dpanic'', ''panic'', ''fatal''}
      \<longrightarrow> getLoggerLevel lvl = InfoLevel)
   \<and> getLoggerLevel [] = InfoLevel
   \<and> getLoggerLevel ''debug'' = DebugLevel \<and> getLoggerLevel ''info'' = InfoLevel
   \<and> getLoggerLevel ''warn'' = WarnLevel \<and> getLoggerLevel ''error'' = ErrorLevel
   \<and> getLoggerLevel ''dpanic'' = DPanicLevel \<and> getLoggerLevel ''panic'' = PanicLevel
   \<and> getLoggerLevel ''fatal'' = FatalLevel"
proof -
  have a: "lvl \<in> dom levelMap \<longrightarrow> levelMap lvl = Some (getLoggerLevel lvl)"
    by (auto simp add: getLoggerLevel_def)
  have b: "lvl \<notin> dom levelMap \<longrightarrow> getLoggerLevel lvl = InfoLevel"
    by (auto simp add: getLoggerLevel_def split: option.split)
  have c: "getLoggerLevel (Level_String l) = l" for l
    by (simp add: getLoggerLevel_def levelMap_Level_String)
  have d: "getLoggerLevel [] = InfoLevel"
    by (simp add: getLoggerLevel_def levelMap_def)
  show ?thesis
    using a b d c [of DebugLevel] c [of InfoLevel] c [of WarnLevel] c [of ErrorLevel]
      c [of DPanicLevel] c [of PanicLevel] c [of FatalLevel]
    unfolding levelMap_dom by simp
qed

theorem getLoggerLevel_total_witness:
  "''warn'' \<in> {''debug'', ''info'', ''warn'', ''error'', ''dpanic'', ''panic'', ''fatal''}
   \<and> levelMap ''warn'' = Some (getLoggerLevel ''warn'')
   \<and> ''WARN'' \<notin> {''debug'', ''info'', ''warn'', ''error'', ''dpanic'', ''panic'', ''fatal''}
   \<and> getLoggerLevel ''WARN'' = InfoLevel"
  using getLoggerLevel_total [of "''warn''"] getLoggerLevel_total [of "''WARN''"] by simp

subsection \<open>Sink router\<close>

text \<open>
  Claim C6. \<open>outputTo\<close> returns the ordered sink list that the selector determines:
  standard output alone for \<open>LogOutputStdout\<close>, the rotating file alone for
  \<open>LogOutputFile\<close>, standard output followed by the rotating file for
  \<open>LogOutputStdoutAndFile\<close>; the rotating file carries the configuration's path, maximal
  size, backup count, maximal age and compression flag.
\<close>

theorem outputTo_selector:
  "(LogOutputTo cfg = LogOutputStdout \<longrightarrow> outputTo (Some cfg) = Inr [Stdout])
   \<and> (LogOutputTo cfg = LogOutputFile \<longrightarrow>
        outputTo (Some cfg) =
          Inr [RotatingFile \<lparr>Filename = LogFilePath cfg, MaxSize = MaxLogSizeMb cfg,
                 MaxBackups = MaxBackup cfg, MaxAge = MaxAgeDay cfg, Compress = IsCompress cfg\<rparr>])
   \<and> (LogOutputTo cfg = LogOutputStdoutAndFile \<longrightarrow>
        outputTo (Some cfg) =
          Inr [Stdout,
               RotatingFile \<lparr>Filename = LogFilePath cfg, MaxSize = MaxLogSizeMb cfg,
                 MaxBackups = MaxBackup cfg, MaxAge = MaxAgeDay cfg, Compress = IsCompress cfg\<rparr>])"
  by (simp add: outputTo_def LogOutputStdout_def LogOutputFile_def LogOutputStdoutAndFile_def)

theorem outputTo_selector_witness:
  "LogOutputTo (zeroCfg\<lparr>LogOutputTo := 1, LogFilePath := ''/var/log/a.log''\<rparr>) = LogOutputFile
   \<and> outputTo (Some (zeroCfg\<lparr>LogOutputTo := 1, LogFilePath := ''/var/log/a.log''\<rparr>)) =
        Inr [RotatingFile \<lparr>Filename = ''/var/log/a.log'', MaxSize = 0, MaxBackups = 0,
                            MaxAge = 0, Compress = False\<rparr>]
   \<and> LogOutputTo zeroCfg = LogOutputStdout
   \<and> outputTo (Some zeroCfg) = Inr [Stdout]
   \<and> LogOutputTo (zeroCfg\<lparr>LogOutputTo := 2\<rparr>) = LogOutputStdoutAndFile
   \<and> outputTo (Some (zeroCfg\<lparr>LogOutputTo := 2\<rparr>)) =
        Inr [Stdout, RotatingFile \<lparr>Filename = [], MaxSize = 0, MaxBackups = 0, MaxAge = 0,
                                   Compress = False\<rparr>]"
  using outputTo_selector [of "zeroCfg\<lparr>LogOutputTo := 1, LogFilePath := ''/var/log/a.log''\<rparr>"]
    outputTo_selector [of zeroCfg] outputTo_selector [of "zeroCfg\<lparr>LogOutputTo := 2\<rparr>"]
  by (simp add: zeroCfg_def LogOutputStdout_def LogOutputFile_def LogOutputStdoutAndFile_def)

text \<open>
  Claim C9. Every selector other than \<open>LogOutputStdout\<close> and \<open>LogOutputFile\<close>, negative
  or above two, takes the default branch and yields the two sinks of the both mode; hence
  the sink list of a configuration is never empty.
\<close>

theorem outputTo_default_branch:
  "(LogOutputTo cfg \<noteq> LogOutputStdout \<and> LogOutputTo cfg \<noteq> LogOutputFile \<longrightarrow>
      outputTo (Some cfg) =
          Inr [Stdout,
               RotatingFile \<lparr>Filename = LogFilePath cfg, MaxSize = MaxLogSizeMb cfg,
                 MaxBackups = MaxBackup cfg, MaxAge = MaxAgeDay cfg, Compress = IsCompress cfg\<rparr>]
      \<and> outputTo (Some cfg) = outputTo (Some (cfg\<lparr>LogOutputTo := LogOutputStdoutAndFile\<rparr>)))
   \<and> (\<exists>ws. outputTo (Some cfg) = Inr ws \<and> ws \<noteq> [])"
  by (simp add: outputTo_def Let_def LogOutputStdout_def LogOutputFile_def
      LogOutputStdoutAndFile_def)


theorem outputTo_default_branch_witness:
  "LogOutputTo (zeroCfg\<lparr>LogOutputTo := - 3\<rparr>) \<noteq> LogOutputStdout
   \<and> LogOutputTo (zeroCfg\<lparr>LogOutputTo := - 3\<rparr>) \<noteq> LogOutputFile
   \<and> outputTo (Some (zeroCfg\<lparr>LogOutputTo := - 3\<rparr>)) =
        Inr [Stdout, RotatingFile \<lparr>Filename = [], MaxSize = 0, MaxBackups = 0, MaxAge = 0,
                                   Compress = False\<rparr>]"
  using outputTo_default_branch [of "zeroCfg\<lparr>LogOutputTo := - 3\<rparr>"]
  by (simp add: zeroCfg_def LogOutputStdout_def LogOutputFile_def)

subsection \<open>Emission and the threshold\<close>

text \<open>
  Claim C3. After \<open>InitPrettyZap\<close> with a configuration whose level name resolves to
  \<open>L\<close>, an emission at record level \<open>R\<close> appends the encoded record to every sink of
  the sink set exactly when \<open>R\<close> is at least \<open>L\<close> in the order
  debug < info < warn < error < fatal, and leaves every sink as it was when \<open>R\<close> is
  below \<open>L\<close>; sinks outside the sink set are never written.
\<close>

theorem emission_iff_threshold:
  "\<exists>g ws b. InitPrettyZap (Some cfg) g0 = Inr g
     \<and> outputTo (Some cfg) = Inr ws \<and> ws \<noteq> []
     \<and> b = EncodeEntry encoderConfig [(''serviceName'', JString (SvcName cfg))]
             \<lparr>ent_Level = R, ent_Time = cs_Now cs, ent_LoggerName = [],
              ent_Message = getMessage F template args, ent_Caller = cs_Frame cs,
              ent_Stack = []\<rparr> []
     \<and> ((\<forall>s \<in> set ws. fst (logf F g cs R template args w) s = w s @ [b])
          \<longleftrightarrow> Level_int (getLoggerLevel (LogLevel cfg)) \<le> Level_int R)
     \<and> (fst (logf F g cs R template args w) = w
          \<longleftrightarrow> Level_int R < Level_int (getLoggerLevel (LogLevel cfg)))
     \<and> (\<forall>s. s \<notin> set ws \<longrightarrow> fst (logf F g cs R template args w) s = w s)
     \<and> Level_int DebugLevel < Level_int InfoLevel \<and> Level_int InfoLevel < Level_int WarnLevel
     \<and> Level_int WarnLevel < Level_int ErrorLevel \<and> Level_int ErrorLevel < Level_int FatalLevel"
proof -
  let ?L = "getLoggerLevel (LogLevel cfg)"
  let ?b = "EncodeEntry encoderConfig [(''serviceName'', JString (SvcName cfg))]
             \<lparr>ent_Level = R, ent_Time = cs_Now cs, ent_LoggerName = [],
              ent_Message = getMessage F template args, ent_Caller = cs_Frame cs,
              ent_Stack = []\<rparr> []"
  obtain g ws where init: "InitPrettyZap (Some cfg) g0 = Inr g"
    and ws: "outputTo (Some cfg) = Inr ws" "ws \<noteq> []"
    and out: "fst (logf F g cs R template args w) =
     (if Level_int ?L \<le> Level_int R
      then (\<lambda>s. if s \<in> set ws then w s @ [?b] else w s) else w)"
    using logf_InitPrettyZap [of cfg g0] by blast
  obtain s0 where s0: "s0 \<in> set ws"
    using ws(2) by (cases ws) auto
  have every: "(\<forall>s \<in> set ws. fst (logf F g cs R template args w) s = w s @ [?b])
          \<longleftrightarrow> Level_int ?L \<le> Level_int R"
    unfolding out using s0 by auto
  have none: "fst (logf F g cs R template args w) = w \<longleftrightarrow> Level_int R < Level_int ?L"
    unfolding out using s0 by (auto simp add: fun_eq_iff)
  have others: "\<forall>s. s \<notin> set ws \<longrightarrow> fst (logf F g cs R template args w) s = w s"
    unfolding out by simp
  show ?thesis
    apply (rule exI [of _ g], rule exI [of _ ws], rule exI [of _ ?b])
    using init ws every none others by simp
qed


theorem emission_iff_threshold_witness:
  "Level_int (getLoggerLevel (LogLevel ((DefaultCfg (initial_globals ''/opt/svc'' ''/opt/svc/app''))\<lparr>LogLevel := ''warn'', LogOutputTo := 0\<rparr>))) \<le> Level_int ErrorLevel
   \<and> Level_int InfoLevel < Level_int (getLoggerLevel (LogLevel ((DefaultCfg (initial_globals ''/opt/svc'' ''/opt/svc/app''))\<lparr>LogLevel := ''warn'', LogOutputTo := 0\<rparr>)))
   \<and> outputTo (Some ((DefaultCfg (initial_globals ''/opt/svc'' ''/opt/svc/app''))\<lparr>LogLevel := ''warn'', LogOutputTo := 0\<rparr>)) = Inr [Stdout]
   \<and> (\<exists>g. InitPrettyZap (Some ((DefaultCfg (initial_globals ''/opt/svc'' ''/opt/svc/app''))\<lparr>LogLevel := ''warn'', LogOutputTo := 0\<rparr>))
              (initial_globals ''/opt/svc'' ''/opt/svc/app'') = Inr g
        \<and> fst (logf \<lparr>Sprint = (\<lambda>vs. []), Sprintf = (\<lambda>t vs. t)\<rparr> g
                 \<lparr>cs_Now = 7, cs_Frame = \<lparr>Defined = True, File = ''app/main.go'', Line = 12\<rparr>\<rparr>
                 ErrorLevel ''disk full'' [] (\<lambda>s. [])) Stdout
            = [\<lparr>pairs = [(''level'', JString ''error''), (''time'', JTime ISO8601TimeEncoder 7),
                         (''caller'', JCaller ShortCallerEncoder
                            \<lparr>Defined = True, File = ''app/main.go'', Line = 12\<rparr>),
                         (''msg'', JString ''disk full''), (''serviceName'', JString ''app'')],
                terminator = [CHR 0x0A]\<rparr>]
        \<and> fst (logf \<lparr>Sprint = (\<lambda>vs. []), Sprintf = (\<lambda>t vs. t)\<rparr> g
                 \<lparr>cs_Now = 7, cs_Frame = \<lparr>Defined = True, File = ''app/main.go'', Line = 12\<rparr>\<rparr>
                 InfoLevel ''hello'' [] (\<lambda>s. [])) = (\<lambda>s. []))"
proof -
  let ?c = "(DefaultCfg (initial_globals ''/opt/svc'' ''/opt/svc/app''))\<lparr>LogLevel := ''warn'', LogOutputTo := 0\<rparr>"
  let ?g0 = "initial_globals ''/opt/svc'' ''/opt/svc/app''"
  let ?F = "\<lparr>Sprint = (\<lambda>vs. []), Sprintf = (\<lambda>t vs. t)\<rparr>"
  let ?cs = "\<lparr>cs_Now = 7, cs_Frame = \<lparr>Defined = True, File = ''app/main.go'', Line = 12\<rparr>\<rparr>"
  have L: "getLoggerLevel (LogLevel ?c) = WarnLevel"
    by (simp add: getLoggerLevel_def levelMap_def)
  have ws: "outputTo (Some ?c) = Inr [Stdout]"
    by (simp add: outputTo_def LogOutputStdout_def)
  have enc: "EncodeEntry encoderConfig [(''serviceName'', JString (SvcName ?c))]
             \<lparr>ent_Level = ErrorLevel, ent_Time = cs_Now ?cs, ent_LoggerName = [],
              ent_Message = getMessage ?F ''disk full'' [], ent_Caller = cs_Frame ?cs,
              ent_Stack = []\<rparr> []
      = \<lparr>pairs = [(''level'', JString ''error''), (''time'', JTime ISO8601TimeEncoder 7),
                         (''caller'', JCaller ShortCallerEncoder
                            \<lparr>Defined = True, File = ''app/main.go'', Line = 12\<rparr>),
                         (''msg'', JString ''disk full''), (''serviceName'', JString ''app'')],
                terminator = [CHR 0x0A]\<rparr>"
    by (simp add: EncodeEntry_def encoderConfig_def getMessage_def initial_globals_def
        getAppname_def DefaultLineEnding_def)
  from emission_iff_threshold [of ?c ?g0 ErrorLevel ?cs ?F "''disk full''" "[]" "\<lambda>s. []"]
  obtain g where g: "InitPrettyZap (Some ?c) ?g0 = Inr g"
    and e: "fst (logf ?F g ?cs ErrorLevel ''disk full'' [] (\<lambda>s. [])) Stdout
            = [\<lparr>pairs = [(''level'', JString ''error''), (''time'', JTime ISO8601TimeEncoder 7),
                         (''caller'', JCaller ShortCallerEncoder
                            \<lparr>Defined = True, File = ''app/main.go'', Line = 12\<rparr>),
                         (''msg'', JString ''disk full''), (''serviceName'', JString ''app'')],
                terminator = [CHR 0x0A]\<rparr>]"
    unfolding L ws enc by auto
  from emission_iff_threshold [of ?c ?g0 InfoLevel ?cs ?F "''hello''" "[]" "\<lambda>s. []"] g
  have i: "fst (logf ?F g ?cs InfoLevel ''hello'' [] (\<lambda>s. [])) = (\<lambda>s. [])"
    unfolding L by auto
  show ?thesis
    using L ws g e i by simp
qed

text \<open>
  Claim C1, evaluated on the code. The claim says that an emission after a level change
  through the control endpoint filters against the new level. In the code the core is
  built with the fixed level \<open>getLoggerLevel (LogLevel DefaultCfg)\<close>, not with
  \<open>atomicLevel\<close>, so no request changes the outcome of any emission: with the level
  configured as \<open>warn\<close>, a request setting \<open>debug\<close> succeeds and stores \<open>DebugLevel\<close> in
  the cell, and the \<open>Info\<close> call that follows still writes nothing.
\<close>

theorem level_change_not_observed:
  "logf F (fst (control_endpoint names req (projr (InitPrettyZap preCfg g0)))) cs R template args w
     = logf F (projr (InitPrettyZap preCfg g0)) cs R template args w
   \<and> atomicLevel (fst (control_endpoint levelMap (Mutation ''debug'')
        (projr (InitPrettyZap (Some (cfg\<lparr>LogLevel := ''warn''\<rparr>)) g0)))) = DebugLevel
   \<and> Status (snd (control_endpoint levelMap (Mutation ''debug'')
        (projr (InitPrettyZap (Some (cfg\<lparr>LogLevel := ''warn''\<rparr>)) g0)))) = 200
   \<and> fst (Info F (fst (control_endpoint levelMap (Mutation ''debug'')
        (projr (InitPrettyZap (Some (cfg\<lparr>LogLevel := ''warn''\<rparr>)) g0)))) cs format args w) = w"
proof -
  have indep: "logf F (fst (control_endpoint names req (projr (InitPrettyZap p g0)))) cs R t a w
     = logf F (projr (InitPrettyZap p g0)) cs R t a w" for names req p R t a
    using InitPrettyZap_fixed_level [of p g0] by (auto simp add: logf_control_endpoint)
  let ?c = "cfg\<lparr>LogLevel := ''warn''\<rparr>"
  have L: "getLoggerLevel (LogLevel ?c) = WarnLevel"
    by (simp add: getLoggerLevel_def levelMap_def)
  have quiet: "fst (logf F (projr (InitPrettyZap (Some ?c) g0)) cs InfoLevel t args w) = w" for t
    using logf_InitPrettyZap [of ?c g0] unfolding L by auto
  have info: "fst (Info F (fst (control_endpoint levelMap (Mutation ''debug'')
        (projr (InitPrettyZap (Some ?c) g0)))) cs format args w) = w"
    by (cases format) (simp_all add: Info_def Infof_def indep quiet)
  have lvl: "atomicLevel (fst (control_endpoint levelMap (Mutation ''debug'') g)) = DebugLevel
      \<and> Status (snd (control_endpoint levelMap (Mutation ''debug'') g)) = 200" for g
    by (simp add: control_endpoint_def ServeHTTP_def levelMap_def)
  show ?thesis
    using indep info lvl by simp
qed


subsection \<open>Control endpoint\<close>

text \<open>
  Claim C4. A mutation request with a name outside the fixed level set is answered with
  a client error (a status from 400 to 499) and leaves the package state, the threshold
  included, as it was; a mutation request with a name of the set replaces the threshold
  by the named level in one step and is answered with a success status. The names of the
  repository's \<open>levelMap\<close> are the seven level names.
\<close>

theorem control_endpoint_validation:
  "(names nm = None \<longrightarrow>
      (\<exists>resp. control_endpoint names (Mutation nm) g = (g, resp)
          \<and> 400 \<le> Status resp \<and> Status resp < 500))
   \<and> (names nm = Some l \<longrightarrow>
      (\<exists>resp. control_endpoint names (Mutation nm) g = (g\<lparr>atomicLevel := l\<rparr>, resp)
          \<and> 200 \<le> Status resp \<and> Status resp < 300))
   \<and> dom levelMap = {''debug'', ''info'', ''warn'', ''error'', ''dpanic'', ''panic'', ''fatal''}"
  by (simp add: control_endpoint_def ServeHTTP_def levelMap_dom)

theorem control_endpoint_validation_witness:
  "levelMap ''verbose'' = None
   \<and> fst (control_endpoint levelMap (Mutation ''verbose'')
        (initial_globals ''/opt/svc'' ''/opt/svc/app''))
       = initial_globals ''/opt/svc'' ''/opt/svc/app''
   \<and> Status (snd (control_endpoint levelMap (Mutation ''verbose'')
        (initial_globals ''/opt/svc'' ''/opt/svc/app''))) = 400
   \<and> levelMap ''error'' = Some ErrorLevel
   \<and> atomicLevel (fst (control_endpoint levelMap (Mutation ''error'')
        (initial_globals ''/opt/svc'' ''/opt/svc/app''))) = ErrorLevel
   \<and> Status (snd (control_endpoint levelMap (Mutation ''error'')
        (initial_globals ''/opt/svc'' ''/opt/svc/app''))) = 200"
proof -
  let ?g = "initial_globals ''/opt/svc'' ''/opt/svc/app''"
  have n: "levelMap ''verbose'' = None" and e: "levelMap ''error'' = Some ErrorLevel"
    by (simp_all add: levelMap_def)
  note bad = control_endpoint_validation
    [of levelMap "''verbose''" ?g ErrorLevel, THEN conjunct1, rule_format, OF n]
  note good = control_endpoint_validation
    [of levelMap "''error''" ?g ErrorLevel, THEN conjunct2, THEN conjunct1, rule_format, OF e]
  obtain r1 where r1: "control_endpoint levelMap (Mutation ''verbose'') ?g = (?g, r1)"
    and s1: "400 \<le> Status r1" "Status r1 < 500"
    using bad by blast
  obtain r2 where r2: "control_endpoint levelMap (Mutation ''error'') ?g
      = (?g\<lparr>atomicLevel := ErrorLevel\<rparr>, r2)"
    using good by blast
  have st1: "Status (snd (control_endpoint levelMap (Mutation ''verbose'') ?g)) = 400"
    by (simp add: control_endpoint_def ServeHTTP_def n)
  have st2: "Status (snd (control_endpoint levelMap (Mutation ''error'') ?g)) = 200"
    by (simp add: control_endpoint_def ServeHTTP_def e)
  show ?thesis
    unfolding r1 r2 using n e st1 st2 unfolding r1 r2 by simp
qed

subsection \<open>Facade functions\<close>

text \<open>
  Claim C7. Each of \<open>Debug\<close>, \<open>Info\<close>, \<open>Warn\<close>, \<open>Error\<close> and \<open>Panic\<close> passes a string
  first argument on as the template of the remaining arguments; for any other first
  argument the template is its \<^verbatim>\<open>Sprint\<close> text followed by one \<^verbatim>\<open> %v\<close> per remaining
  argument, against which the remaining arguments are formatted; with no remaining
  argument the template is the \<^verbatim>\<open>Sprint\<close> text alone.
\<close>

theorem facade_template:
  "Debug F g cs (GoString t) args w = Debugf F g cs t args w
   \<and> Info F g cs (GoString t) args w = Infof F g cs t args w
   \<and> Warn F g cs (GoString t) args w = Warnf F g cs t args w
   \<and> Error F g cs (GoString t) args w = Errorf F g cs t args w
   \<and> Panic F g cs (GoString t) args w = Panicf F g cs t args w
   \<and> (format \<notin> range GoString \<longrightarrow>
        Debug F g cs format args w =
          Debugf F g cs (Sprint F [format] @ concat (replicate (length args) '' %v'')) args w
        \<and> Info F g cs format args w =
          Infof F g cs (Sprint F [format] @ concat (replicate (length args) '' %v'')) args w
        \<and> Warn F g cs format args w =
          Warnf F g cs (Sprint F [format] @ concat (replicate (length args) '' %v'')) args w
        \<and> Error F g cs format args w =
          Errorf F g cs (Sprint F [format] @ concat (replicate (length args) '' %v'')) args w
        \<and> Panic F g cs format args w =
          Panicf F g cs (Sprint F [format] @ concat (replicate (length args) '' %v'')) args w)
   \<and> (args \<noteq> [] \<longrightarrow>
        getMessage F (Sprint F [format] @ concat (replicate (length args) '' %v'')) args =
          Sprintf F (Sprint F [format] @ concat (replicate (length args) '' %v'')) args)
   \<and> (args = [] \<longrightarrow>
        Sprint F [format] @ concat (replicate (length args) '' %v'') = Sprint F [format])"
proof -
  have str: "Debug F g cs (GoString t) args w = Debugf F g cs t args w
   \<and> Info F g cs (GoString t) args w = Infof F g cs t args w
   \<and> Warn F g cs (GoString t) args w = Warnf F g cs t args w
   \<and> Error F g cs (GoString t) args w = Errorf F g cs t args w
   \<and> Panic F g cs (GoString t) args w = Panicf F g cs t args w"
    by (simp add: Debug_def Info_def Warn_def Error_def Panic_def)
  have other: "format \<notin> range GoString \<longrightarrow>
        Debug F g cs format args w =
          Debugf F g cs (Sprint F [format] @ concat (replicate (length args) '' %v'')) args w
        \<and> Info F g cs format args w =
          Infof F g cs (Sprint F [format] @ concat (replicate (length args) '' %v'')) args w
        \<and> Warn F g cs format args w =
          Warnf F g cs (Sprint F [format] @ concat (replicate (length args) '' %v'')) args w
        \<and> Error F g cs format args w =
          Errorf F g cs (Sprint F [format] @ concat (replicate (length args) '' %v'')) args w
        \<and> Panic F g cs format args w =
          Panicf F g cs (Sprint F [format] @ concat (replicate (length args) '' %v'')) args w"
    by (cases format)
      (simp_all add: Debug_def Info_def Warn_def Error_def Panic_def Repeat_concat)
  have fmt: "args \<noteq> [] \<longrightarrow>
        getMessage F (Sprint F [format] @ concat (replicate (length args) '' %v'')) args =
          Sprintf F (Sprint F [format] @ concat (replicate (length args) '' %v'')) args"
    by (cases args) (simp_all add: getMessage_def)
  show ?thesis
    using str other fmt by simp
qed

theorem facade_template_witness:
  "GoInt 42 \<notin> range GoString
   \<and> Warn \<lparr>Sprint = (\<lambda>vs. ''42''), Sprintf = (\<lambda>t vs. t)\<rparr>
        (initial_globals ''/opt/svc'' ''/opt/svc/app'')
        \<lparr>cs_Now = 7, cs_Frame = \<lparr>Defined = True, File = ''app/main.go'', Line = 12\<rparr>\<rparr>
        (GoInt 42) [GoBool True, GoNil] (\<lambda>s. [])
      = Warnf \<lparr>Sprint = (\<lambda>vs. ''42''), Sprintf = (\<lambda>t vs. t)\<rparr>
        (initial_globals ''/opt/svc'' ''/opt/svc/app'')
        \<lparr>cs_Now = 7, cs_Frame = \<lparr>Defined = True, File = ''app/main.go'', Line = 12\<rparr>\<rparr>
        ''42 %v %v'' [GoBool True, GoNil] (\<lambda>s. [])
   \<and> [GoBool True, GoNil] \<noteq> []
   \<and> getMessage \<lparr>Sprint = (\<lambda>vs. ''42''), Sprintf = (\<lambda>t vs. t)\<rparr> ''42 %v %v'' [GoBool True, GoNil]
      = ''42 %v %v''"
  using facade_template [of "\<lparr>Sprint = (\<lambda>vs. ''42''), Sprintf = (\<lambda>t vs. t)\<rparr>"
      "initial_globals ''/opt/svc'' ''/opt/svc/app''"
      "\<lparr>cs_Now = 7, cs_Frame = \<lparr>Defined = True, File = ''app/main.go'', Line = 12\<rparr>\<rparr>"
      _ "[GoBool True, GoNil]" "\<lambda>s. []" "GoInt 42"]
  by auto

subsection \<open>Encoding\<close>

text \<open>
  Claim C8. The logger built by \<open>NewLogger\<close> writes each record as one encoded line
  ended by a newline. Its keys are the keys bound in \<open>encoderConfig\<close> together with the
  permanent \<^verbatim>\<open>serviceName\<close> field: level, time, message and service name always, the
  logger name, the caller and the stack trace when the record carries them, each under
  its bound key and no other key. The time is rendered by the ISO 8601 encoder, the level
  as its lowercase name (a name of \<open>levelMap\<close>), the caller by the short caller encoder.
\<close>

theorem encoded_record_fields:
  "\<exists>lg ws b. NewLogger g (Some cfg) = Inr lg \<and> outputTo (Some cfg) = Inr ws
     \<and> core_enc (log_core lg) = encoderConfig
     \<and> core_context (log_core lg) = [(''serviceName'', JString (SvcName cfg))]
     \<and> b = EncodeEntry (core_enc (log_core lg)) (core_context (log_core lg)) ent []
     \<and> (\<forall>s \<in> set ws. Core_Write (log_core lg) ent [] w s = w s @ [b])
     \<and> terminator b = [CHR 0x0A]
     \<and> map fst (pairs b) =
          [''level'', ''time'']
          @ (if ent_LoggerName ent \<noteq> [] then [''zapLogger''] else [])
          @ (if Defined (ent_Caller ent) then [''caller''] else [])
          @ [''msg'', ''serviceName'']
          @ (if ent_Stack ent \<noteq> [] then [''stacktrace''] else [])
     \<and> set (map fst (pairs b)) \<subseteq>
          {TimeKey encoderConfig, LevelKey encoderConfig, NameKey encoderConfig,
           CallerKey encoderConfig, MessageKey encoderConfig, StacktraceKey encoderConfig,
           ''serviceName''}
     \<and> map_of (pairs b) ''time'' = Some (JTime ISO8601TimeEncoder (ent_Time ent))
     \<and> map_of (pairs b) ''level'' = Some (JString (Level_String (ent_Level ent)))
     \<and> set (Level_String (ent_Level ent)) \<subseteq> set ''abcdefghijklmnopqrstuvwxyz''
     \<and> levelMap (Level_String (ent_Level ent)) = Some (ent_Level ent)
     \<and> (Defined (ent_Caller ent) \<longrightarrow>
          map_of (pairs b) ''caller'' = Some (JCaller ShortCallerEncoder (ent_Caller ent)))
     \<and> map_of (pairs b) ''msg'' = Some (JString (ent_Message ent))
     \<and> map_of (pairs b) ''serviceName'' = Some (JString (SvcName cfg))"
proof -
  obtain ws where ws: "outputTo (Some cfg) = Inr ws"
    using outputTo_Some_ex by blast
  note d = outputTo_Some_cases [OF ws]
  let ?lg = "\<lparr>log_core =
            \<lparr>core_enc = encoderConfig,
             core_context = [(''serviceName'', JString (SvcName cfg))],
             core_out = ws,
             core_enab = FixedLevel (getLoggerLevel (LogLevel (DefaultCfg g)))\<rparr>,
          log_development = True, log_addCaller = True, log_callerSkip = 1, log_name = []\<rparr>"
  let ?b = "EncodeEntry encoderConfig [(''serviceName'', JString (SvcName cfg))] ent []"
  have lg: "NewLogger g (Some cfg) = Inr ?lg"
    by (rule NewLogger_Some [OF ws])
  have wr: "\<forall>s \<in> set ws. Core_Write (log_core ?lg) ent [] w s = w s @ [?b]"
    using d by (simp add: Core_Write_def MultiWrite_distinct)
  have nl: "terminator ?b = [CHR 0x0A]"
    by (simp add: EncodeEntry_def encoderConfig_def DefaultLineEnding_def)
  have keys: "map fst (pairs ?b) =
          [''level'', ''time'']
          @ (if ent_LoggerName ent \<noteq> [] then [''zapLogger''] else [])
          @ (if Defined (ent_Caller ent) then [''caller''] else [])
          @ [''msg'', ''serviceName'']
          @ (if ent_Stack ent \<noteq> [] then [''stacktrace''] else [])"
    by (simp add: EncodeEntry_def encoderConfig_def)
  have sub: "set (map fst (pairs ?b)) \<subseteq>
          {TimeKey encoderConfig, LevelKey encoderConfig, NameKey encoderConfig,
           CallerKey encoderConfig, MessageKey encoderConfig, StacktraceKey encoderConfig,
           ''serviceName''}"
    unfolding keys by (auto simp add: encoderConfig_def)
  have vals: "map_of (pairs ?b) ''time'' = Some (JTime ISO8601TimeEncoder (ent_Time ent))
     \<and> map_of (pairs ?b) ''level'' = Some (JString (Level_String (ent_Level ent)))
     \<and> (Defined (ent_Caller ent) \<longrightarrow>
          map_of (pairs ?b) ''caller'' = Some (JCaller ShortCallerEncoder (ent_Caller ent)))
     \<and> map_of (pairs ?b) ''msg'' = Some (JString (ent_Message ent))
     \<and> map_of (pairs ?b) ''serviceName'' = Some (JString (SvcName cfg))"
    by (simp add: EncodeEntry_def encoderConfig_def)
  show ?thesis
    apply (rule exI [of _ ?lg], rule exI [of _ ws], rule exI [of _ ?b])
    using lg ws wr nl keys sub vals Level_String_lowercase [of "ent_Level ent"]
      levelMap_Level_String [of "ent_Level ent"]
    by simp
qed


theorem encoded_record_fields_witness:
  "Defined (ent_Caller
      \<lparr>ent_Level = InfoLevel, ent_Time = 7, ent_LoggerName = [], ent_Message = ''hello'',
       ent_Caller = \<lparr>Defined = True, File = ''app/main.go'', Line = 12\<rparr>, ent_Stack = []\<rparr>)
   \<and> EncodeEntry encoderConfig
        [(''serviceName'', JString (SvcName (DefaultCfg (initial_globals ''/opt/svc'' ''/opt/svc/app''))))]
        \<lparr>ent_Level = InfoLevel, ent_Time = 7, ent_LoggerName = [], ent_Message = ''hello'',
         ent_Caller = \<lparr>Defined = True, File = ''app/main.go'', Line = 12\<rparr>, ent_Stack = []\<rparr> []
      = \<lparr>pairs = [(''level'', JString ''info''), (''time'', JTime ISO8601TimeEncoder 7),
                  (''caller'', JCaller ShortCallerEncoder
                     \<lparr>Defined = True, File = ''app/main.go'', Line = 12\<rparr>),
                  (''msg'', JString ''hello''), (''serviceName'', JString ''app'')],
         terminator = [CHR 0x0A]\<rparr>
   \<and> map_of (pairs (EncodeEntry encoderConfig
        [(''serviceName'', JString (SvcName (DefaultCfg (initial_globals ''/opt/svc'' ''/opt/svc/app''))))]
        \<lparr>ent_Level = InfoLevel, ent_Time = 7, ent_LoggerName = [], ent_Message = ''hello'',
         ent_Caller = \<lparr>Defined = True, File = ''app/main.go'', Line = 12\<rparr>, ent_Stack = []\<rparr> []))
        ''caller''
      = Some (JCaller ShortCallerEncoder \<lparr>Defined = True, File = ''app/main.go'', Line = 12\<rparr>)"
proof -
  let ?c = "DefaultCfg (initial_globals ''/opt/svc'' ''/opt/svc/app'')"
  let ?e = "\<lparr>ent_Level = InfoLevel, ent_Time = 7, ent_LoggerName = [], ent_Message = ''hello'',
       ent_Caller = \<lparr>Defined = True, File = ''app/main.go'', Line = 12\<rparr>, ent_Stack = []\<rparr>"
  have d: "Defined (ent_Caller ?e)" by simp
  have v: "EncodeEntry encoderConfig [(''serviceName'', JString (SvcName ?c))] ?e []
      = \<lparr>pairs = [(''level'', JString ''info''), (''time'', JTime ISO8601TimeEncoder 7),
                  (''caller'', JCaller ShortCallerEncoder
                     \<lparr>Defined = True, File = ''app/main.go'', Line = 12\<rparr>),
                  (''msg'', JString ''hello''), (''serviceName'', JString ''app'')],
         terminator = [CHR 0x0A]\<rparr>"
    by (simp add: EncodeEntry_def encoderConfig_def initial_globals_def getAppname_def
        DefaultLineEnding_def)
  from encoded_record_fields [of "initial_globals ''/opt/svc'' ''/opt/svc/app''" ?c ?e "\<lambda>s. []"] d
  have "map_of (pairs (EncodeEntry encoderConfig [(''serviceName'', JString (SvcName ?c))] ?e []))
        ''caller''
      = Some (JCaller ShortCallerEncoder \<lparr>Defined = True, File = ''app/main.go'', Line = 12\<rparr>)"
    by auto
  with d v show ?thesis by simp
qed

end
